theory Spec2Isabelle
  imports Main "HOL-Library.Char_ord" "HOL-Library.List_Lexorder" "HOL-Library.Sublist"
begin

section \<open>Texts\<close>

text \<open>
  A Python \<open>str\<close> is modelled as a \<open>string\<close>: a list of 8-bit characters, each standing
  for the code point of the same number. The model therefore covers the texts whose code
  points lie below 256 (ASCII and Latin-1). On that range the Unicode-aware operations
  of the source (\<open>str.strip\<close>, \<open>str.lower\<close>, \<open>str.isdigit\<close>, the regular expression
  class \<open>\s\<close> and the flag \<open>re.IGNORECASE\<close>) are the finite tables below.
\<close>

definition white_space :: string where
  \<comment> \<open>TAB, LF, VT, FF, CR, FS, GS, RS, US, space, NEL, NBSP\<close>
  "white_space = [CHR 0x09, CHR 0x0A, CHR 0x0B, CHR 0x0C, CHR 0x0D, CHR 0x1C, CHR 0x1D, CHR 0x1E, CHR 0x1F, CHR 0x20, CHR 0x85, CHR 0xA0]"

definition is_space :: "char \<Rightarrow> bool" where
  \<comment> \<open>\<open>str.isspace\<close> and the class \<open>\s\<close>\<close>
  "is_space c \<longleftrightarrow> c \<in> set white_space"

definition is_ascii_digit :: "char \<Rightarrow> bool" where
  "is_ascii_digit c \<longleftrightarrow> c \<in> set ''0123456789''"

definition is_digit_char :: "char \<Rightarrow> bool" where
  \<comment> \<open>The characters \<open>str.isdigit\<close> accepts: the ASCII digits and the superscripts
      two, three and one.\<close>
  "is_digit_char c \<longleftrightarrow> is_ascii_digit c \<or> c \<in> set [CHR 0xB2, CHR 0xB3, CHR 0xB9]"

definition upper_chars :: string where
  \<comment> \<open>A..Z and the Latin-1 capitals (the multiplication sign is not one).\<close>
  "upper_chars = ''ABCDEFGHIJKLMNOPQRSTUVWXYZ'' @
     [CHR 0xC0, CHR 0xC1, CHR 0xC2, CHR 0xC3, CHR 0xC4, CHR 0xC5, CHR 0xC6, CHR 0xC7, CHR 0xC8, CHR 0xC9, CHR 0xCA, CHR 0xCB, CHR 0xCC, CHR 0xCD, CHR 0xCE, CHR 0xCF, CHR 0xD0, CHR 0xD1, CHR 0xD2, CHR 0xD3, CHR 0xD4, CHR 0xD5, CHR 0xD6, CHR 0xD8, CHR 0xD9, CHR 0xDA, CHR 0xDB, CHR 0xDC, CHR 0xDD, CHR 0xDE]"

definition lower_chars :: string where
  \<comment> \<open>Their small letters, in the same order.\<close>
  "lower_chars = ''abcdefghijklmnopqrstuvwxyz'' @
     [CHR 0xE0, CHR 0xE1, CHR 0xE2, CHR 0xE3, CHR 0xE4, CHR 0xE5, CHR 0xE6, CHR 0xE7, CHR 0xE8, CHR 0xE9, CHR 0xEA, CHR 0xEB, CHR 0xEC, CHR 0xED, CHR 0xEE, CHR 0xEF, CHR 0xF0, CHR 0xF1, CHR 0xF2, CHR 0xF3, CHR 0xF4, CHR 0xF5, CHR 0xF6, CHR 0xF8, CHR 0xF9, CHR 0xFA, CHR 0xFB, CHR 0xFC, CHR 0xFD, CHR 0xFE]"

definition lower_char :: "char \<Rightarrow> char" where
  \<comment> \<open>\<open>str.lower\<close> on one character.\<close>
  "lower_char c = (case map_of (zip upper_chars lower_chars) c of Some d \<Rightarrow> d | None \<Rightarrow> c)"

definition lower :: "string \<Rightarrow> string" where
  "lower s = map lower_char s"

definition strip :: "string \<Rightarrow> string" where
  \<comment> \<open>\<open>str.strip()\<close>: white space removed at both ends.\<close>
  "strip s = rev (dropWhile is_space (rev (dropWhile is_space s)))"

definition isdigit :: "string \<Rightarrow> bool" where
  \<comment> \<open>\<open>str.isdigit()\<close>: non-empty and every character a digit character.\<close>
  "isdigit s \<longleftrightarrow> s \<noteq> [] \<and> list_all is_digit_char s"

definition startswith :: "string \<Rightarrow> string \<Rightarrow> bool" where
  "startswith s p \<longleftrightarrow> take (length p) s = p"

fun contains :: "string \<Rightarrow> string \<Rightarrow> bool" where
  \<comment> \<open>\<open>k in s\<close> for strings: \<open>k\<close> occurs in \<open>s\<close> as a contiguous substring.\<close>
  "contains [] k = (k = [])"
| "contains (c # cs) k = (startswith (c # cs) k \<or> contains cs k)"

fun find_char :: "char \<Rightarrow> string \<Rightarrow> nat option" where
  \<comment> \<open>\<open>s.find(c)\<close>: the index of the first occurrence; \<open>None\<close> stands for \<open>-1\<close>.\<close>
  "find_char c [] = None"
| "find_char c (x # xs) = (if x = c then Some 0 else map_option Suc (find_char c xs))"

definition rfind_char :: "char \<Rightarrow> string \<Rightarrow> nat option" where
  \<comment> \<open>\<open>s.rfind(c)\<close>: the index of the last occurrence.\<close>
  "rfind_char c s =
     (case find_char c (rev s) of None \<Rightarrow> None | Some i \<Rightarrow> Some (length s - 1 - i))"

definition slice :: "nat \<Rightarrow> nat \<Rightarrow> string \<Rightarrow> string" where
  \<comment> \<open>\<open>s[i:j]\<close> for indices that are not negative.\<close>
  "slice i j s = take (j - i) (drop i s)"

fun digits_of :: "nat \<Rightarrow> nat \<Rightarrow> string" where
  \<comment> \<open>The decimal digits of a number below \<open>10 ^ k\<close>, most significant first, with no
      leading zero; \<open>k\<close> bounds the number of digits.\<close>
  "digits_of 0 n = []"
| "digits_of (Suc k) n =
     (if n < 10 then [''0123456789'' ! n]
      else digits_of k (n div 10) @ [''0123456789'' ! (n mod 10)])"

definition str_nat :: "nat \<Rightarrow> string" where
  \<comment> \<open>\<open>str(n)\<close> for a number that is not negative.\<close>
  "str_nat n = digits_of (Suc n) n"

section \<open>JSON values and the standard decoder\<close>

text \<open>
  \<open>json.loads\<close> belongs to Python's standard library, not to the repository. The clients
  below take the decoder as a parameter \<open>loads\<close>, so that what is proved about them holds
  for every decoder; \<open>json_loads\<close> is a reference model of the standard one, used to run
  the clients on concrete texts. It follows \<open>json.decoder\<close> and \<open>json.scanner\<close>: the
  grammar of RFC 8259, white space \<open>SP HT LF CR\<close> between tokens, control characters
  refused inside strings, and the three constants \<open>NaN\<close>, \<open>Infinity\<close>, \<open>-Infinity\<close>.
  A number with a fraction or an exponent is kept as a decimal mantissa and exponent;
  its rounding to a binary float is not modelled. An escape \<open>\uXXXX\<close> that denotes a code
  point above 255 has no counterpart among the model's characters and \<open>json_loads\<close> gives
  no value for such a text. Two limits of the interpreter (the recursion depth and the
  number of digits of an integer literal) are not modelled either.
\<close>

datatype json =
    JNull
  | JBool bool
  | JInt int
  | JFloat int int
  | JNaN
  | JInfinity
  | JNegInfinity
  | JStr string
  | JArr "json list"
  | JObj "(string \<times> json) list"

datatype token =
    TLBrace | TRBrace | TLBracket | TRBracket | TComma | TColon
  | TString string
  | TValue json

definition hexval :: "char \<Rightarrow> int option" where
  "hexval c =
     map_of (zip ''0123456789abcdefABCDEF''
                 [0, 1, 2, 3, 4, 5, 6, 7, 8, 9, 10, 11, 12, 13, 14, 15, 10, 11, 12, 13, 14, 15]) c"

definition decode_uXXXX :: "string \<Rightarrow> int option" where
  \<comment> \<open>The four hexadecimal digits after \<open>\u\<close>.\<close>
  "decode_uXXXX s =
     (case map hexval (take 4 s) of
        [Some a, Some b, Some c, Some d] \<Rightarrow> Some (((a * 16 + b) * 16 + c) * 16 + d)
      | _ \<Rightarrow> None)"

definition is_control :: "char \<Rightarrow> bool" where
  \<comment> \<open>A code point below 32, which a string literal must escape: the three high bits
      are clear.\<close>
  "is_control c = (case c of Char b0 b1 b2 b3 b4 b5 b6 b7 \<Rightarrow> \<not> b5 \<and> \<not> b6 \<and> \<not> b7)"

definition simple_escape :: "char \<Rightarrow> char option" where
  "simple_escape e =
     (if e = CHR 0x22 then Some (CHR 0x22)
      else if e = CHR 0x5C then Some (CHR 0x5C)
      else if e = CHR ''/'' then Some (CHR ''/'')
      else if e = CHR ''b'' then Some (CHR 0x08)
      else if e = CHR ''f'' then Some (CHR 0x0C)
      else if e = CHR ''n'' then Some (CHR 0x0A)
      else if e = CHR ''r'' then Some (CHR 0x0D)
      else if e = CHR ''t'' then Some (CHR 0x09)
      else None)"

definition digit_value :: "char \<Rightarrow> int" where
  "digit_value c =
     (case map_of (zip ''0123456789'' [0, 1, 2, 3, 4, 5, 6, 7, 8, 9]) c of Some d \<Rightarrow> d | None \<Rightarrow> 0)"

definition int_of_digits :: "string \<Rightarrow> int" where
  "int_of_digits ds = foldl (\<lambda>n c. 10 * n + digit_value c) 0 ds"

definition scan_number :: "string \<Rightarrow> (json \<times> nat) option" where
  \<comment> \<open>\<open>NUMBER_RE.match\<close>: \<open>(-?(?:0|[1-9][0-9]*))(\.[0-9]+)?([eE][-+]?[0-9]+)?\<close> at the
      start of the text. The result is the number and how many characters it takes.\<close>
  "scan_number s =
     (let neg = (s \<noteq> [] \<and> hd s = CHR ''-'');
          s1 = (if neg then tl s else s);
          ds = takeWhile is_ascii_digit s1
      in if ds = [] then None
         else
           let ipart = (if hd ds = CHR ''0'' then [CHR ''0''] else ds);
               s2 = drop (length ipart) s1;
               fs = (case s2 of c # r \<Rightarrow> if c = CHR ''.'' then takeWhile is_ascii_digit r else []
                     | [] \<Rightarrow> []);
               flen = (if fs = [] then 0 else 1 + length fs);
               s3 = drop flen s2;
               has_e = (s3 \<noteq> [] \<and> (hd s3 = CHR ''e'' \<or> hd s3 = CHR ''E''));
               s4 = (if has_e then tl s3 else []);
               has_sign = (s4 \<noteq> [] \<and> (hd s4 = CHR ''-'' \<or> hd s4 = CHR ''+''));
               eneg = (s4 \<noteq> [] \<and> hd s4 = CHR ''-'');
               es = takeWhile is_ascii_digit (if has_sign then tl s4 else s4);
               elen = (if es = [] then 0 else 1 + (if has_sign then 1 else 0) + length es);
               sgn = (if neg then - 1 else 1);
               total = (if neg then 1 else 0) + length ipart + flen + elen
           in if fs = [] \<and> es = []
              then Some (JInt (sgn * int_of_digits ipart), total)
              else Some (JFloat (sgn * int_of_digits (ipart @ fs))
                           ((if eneg then - 1 else 1) * int_of_digits es - int (length fs)),
                         total))"

fun lex :: "string \<Rightarrow> token list option"
  and lex_string :: "string \<Rightarrow> string \<Rightarrow> token list option"
where
  "lex [] = Some []"
| "lex (c # cs) =
     (if c = CHR '' '' \<or> c = CHR 0x09 \<or> c = CHR 0x0A \<or> c = CHR 0x0D then lex cs
      else if c = CHR 0x22 then lex_string [] cs
      else if c = CHR ''{'' then map_option (Cons TLBrace) (lex cs)
      else if c = CHR ''}'' then map_option (Cons TRBrace) (lex cs)
      else if c = CHR ''['' then map_option (Cons TLBracket) (lex cs)
      else if c = CHR '']'' then map_option (Cons TRBracket) (lex cs)
      else if c = CHR '','' then map_option (Cons TComma) (lex cs)
      else if c = CHR '':'' then map_option (Cons TColon) (lex cs)
      else if startswith (c # cs) ''null'' then map_option (Cons (TValue JNull)) (lex (drop 3 cs))
      else if startswith (c # cs) ''true''
        then map_option (Cons (TValue (JBool True))) (lex (drop 3 cs))
      else if startswith (c # cs) ''false''
        then map_option (Cons (TValue (JBool False))) (lex (drop 4 cs))
      else (case scan_number (c # cs) of
              Some (v, k) \<Rightarrow> map_option (Cons (TValue v)) (lex (drop (k - 1) cs))
            | None \<Rightarrow>
               if startswith (c # cs) ''NaN'' then map_option (Cons (TValue JNaN)) (lex (drop 2 cs))
               else if startswith (c # cs) ''Infinity''
                 then map_option (Cons (TValue JInfinity)) (lex (drop 7 cs))
               else if startswith (c # cs) ''-Infinity''
                 then map_option (Cons (TValue JNegInfinity)) (lex (drop 8 cs))
               else None))"
| "lex_string acc [] = None"
| "lex_string acc (c # cs) =
     (if c = CHR 0x22 then map_option (Cons (TString (rev acc))) (lex cs)
      else if c = CHR 0x5C then
        (case cs of
           [] \<Rightarrow> None
         | e # r \<Rightarrow>
            if e = CHR ''u'' then
              (case decode_uXXXX r of
                 None \<Rightarrow> None
               | Some n \<Rightarrow> if n < 256 then lex_string (char_of n # acc) (drop 4 r) else None)
            else (case simple_escape e of
                    None \<Rightarrow> None
                  | Some x \<Rightarrow> lex_string (x # acc) r))
      else if is_control c then None
      else lex_string (c # acc) cs)"








section \<open>Python values\<close>

text \<open>
  How the clients look at a decoded value: truthiness (\<open>x or y\<close>, \<open>if x\<close>) and the lookup
  \<open>d.get(k)\<close> of a dictionary. A dictionary decoded from an object with a repeated key
  holds the last value given for it.
\<close>

fun truthy :: "json \<Rightarrow> bool" where
  "truthy JNull = False"
| "truthy (JBool b) = b"
| "truthy (JInt i) = (i \<noteq> 0)"
| "truthy (JFloat m e) = (m \<noteq> 0)"
| "truthy JNaN = True"
| "truthy JInfinity = True"
| "truthy JNegInfinity = True"
| "truthy (JStr s) = (s \<noteq> [])"
| "truthy (JArr xs) = (xs \<noteq> [])"
| "truthy (JObj kvs) = (kvs \<noteq> [])"

definition dict_get :: "(string \<times> json) list \<Rightarrow> string \<Rightarrow> json option" where
  "dict_get kvs k = map_of (rev kvs) k"

datatype error =
    RuntimeError string
  | JSONDecodeError
  | AttributeError
  | TypeError
  | ValueError
  | EOFError
  | HTTPError nat
  | ConnectionError
  | Timeout
  | IndexError
  | SystemExit nat

section \<open>The response extractor (test\_model.py)\<close>

subsection \<open>The regular expressions\<close>

text \<open>
  Each pattern of the source is modelled by the function that the regular expression
  engine computes for it: leftmost match first, a greedy or lazy repetition as the
  pattern says, and the scan resumed where the match ended. All patterns are compiled
  with \<open>DOTALL\<close>, so \<open>.\<close> is any character.
\<close>

fun ci_startswith :: "string \<Rightarrow> string \<Rightarrow> bool" where
  \<comment> \<open>The text starts with the (lower case) literal, letters compared without case.\<close>
  "ci_startswith s [] = True"
| "ci_startswith [] (p # ps) = False"
| "ci_startswith (c # cs) (p # ps) = (if lower_char c = p then ci_startswith cs ps else False)"

declare ci_startswith.simps [simp del]

fun strip_thinking :: "string \<Rightarrow> string" where
  \<comment> \<open>\<open>re.sub(r'(?is)(thinking\.\.\.|done thinking\.)', '', content)\<close>\<close>
  "strip_thinking [] = []"
| "strip_thinking (c # cs) =
     (if ci_startswith (c # cs) ''thinking...'' then strip_thinking (drop 10 cs)
      else if ci_startswith (c # cs) ''done thinking.'' then strip_thinking (drop 13 cs)
      else c # strip_thinking cs)"

function strip_respond :: "string \<Rightarrow> string" where
  \<comment> \<open>\<open>re.sub(r'(?is)(we need to respond.*?)(?=\{)', '', cleaned)\<close>: the marker and
      what follows it, up to the next opening brace, which stays.\<close>
  "strip_respond [] = []"
| "strip_respond (c # cs) =
     (if ci_startswith (c # cs) ''we need to respond'' \<and> CHR ''{'' \<in> set (drop 17 cs)
      then strip_respond (dropWhile (\<lambda>x. x \<noteq> CHR ''{'') (drop 17 cs))
      else c # strip_respond cs)"
  by pat_completeness auto
termination
  by (relation "measure length")
     (auto intro!: le_imp_less_Suc order_trans [OF length_dropWhile_le])

definition fence :: string where
  "fence = [CHR 0x60, CHR 0x60, CHR 0x60]"

fun lazy_fence_body :: "string \<Rightarrow> string \<Rightarrow> (string \<times> string) option" where
  \<comment> \<open>\<open>(.*?)\s*```\<close>: the shortest group after which white space and the closing fence
      follow. The result is the group and the text after the fence.\<close>
  "lazy_fence_body acc [] = None"
| "lazy_fence_body acc (c # cs) =
     (if startswith (dropWhile is_space (c # cs)) fence
      then Some (rev acc, drop 3 (dropWhile is_space (c # cs)))
      else lazy_fence_body (c # acc) cs)"

definition match_fence :: "string \<Rightarrow> string \<Rightarrow> (string \<times> string) option" where
  \<comment> \<open>\<open>opening\s*(.*?)\s*```\<close> matched at the start of the text.\<close>
  "match_fence opening s =
     (if startswith s opening
      then lazy_fence_body [] (dropWhile is_space (drop (length opening) s))
      else None)"

lemma lazy_fence_body_shorter:
  "lazy_fence_body acc s = Some (g, rest) \<Longrightarrow> length rest < length s"
proof (induction acc s rule: lazy_fence_body.induct)
  case (1 acc)
  then show ?case by simp
next
  case (2 acc c cs)
  show ?case
  proof (cases "startswith (dropWhile is_space (c # cs)) fence")
    case True
    then have "3 \<le> length (dropWhile is_space (c # cs))"
      by (auto simp: startswith_def fence_def dest: arg_cong [where f = length])
    moreover have "length (dropWhile is_space (c # cs)) \<le> length (c # cs)"
      by (rule length_dropWhile_le)
    moreover from True "2.prems" have "rest = drop 3 (dropWhile is_space (c # cs))"
      by simp
    ultimately show ?thesis by simp
  next
    case False
    with "2.prems" have "lazy_fence_body (c # acc) cs = Some (g, rest)" by simp
    with "2.IH" False have "length rest < length cs" by simp
    then show ?thesis by simp
  qed
qed

lemma match_fence_shorter:
  "match_fence opening s = Some (g, rest) \<Longrightarrow> length rest < length s"
proof -
  assume m: "match_fence opening s = Some (g, rest)"
  then have "lazy_fence_body [] (dropWhile is_space (drop (length opening) s)) = Some (g, rest)"
    by (simp add: match_fence_def split: if_splits)
  then have "length rest < length (dropWhile is_space (drop (length opening) s))"
    by (rule lazy_fence_body_shorter)
  also have "\<dots> \<le> length (drop (length opening) s)"
    by (rule length_dropWhile_le)
  also have "\<dots> \<le> length s" by simp
  finally show ?thesis .
qed

function findall_fence :: "string \<Rightarrow> string \<Rightarrow> string list" where
  \<comment> \<open>\<open>re.findall(opening + r'\s*(.*?)\s*```', text, re.DOTALL)\<close>\<close>
  "findall_fence opening [] = []"
| "findall_fence opening (c # cs) =
     (case match_fence opening (c # cs) of
        Some (g, rest) \<Rightarrow> g # findall_fence opening rest
      | None \<Rightarrow> findall_fence opening cs)"
  by pat_completeness auto
termination
  by (relation "measure (\<lambda>(opening, s). length s)") (auto dest: match_fence_shorter)

fun findall_greedy :: "string \<Rightarrow> string list" where
  \<comment> \<open>\<open>re.findall(r'(\{.*\})', text, re.DOTALL)\<close>: from an opening brace to the last
      closing brace after it.\<close>
  "findall_greedy [] = []"
| "findall_greedy (c # cs) =
     (if c = CHR ''{'' then
        (case rfind_char (CHR ''}'') cs of
           Some k \<Rightarrow> (c # take (Suc k) cs) # findall_greedy (drop (Suc k) cs)
         | None \<Rightarrow> findall_greedy cs)
      else findall_greedy cs)"

fun findall_lazy :: "string \<Rightarrow> string list" where
  \<comment> \<open>\<open>re.findall(r'(\{.*?\})', text, re.DOTALL)\<close>: from an opening brace to the first
      closing brace after it.\<close>
  "findall_lazy [] = []"
| "findall_lazy (c # cs) =
     (if c = CHR ''{'' then
        (case find_char (CHR ''}'') cs of
           Some k \<Rightarrow> (c # take (Suc k) cs) # findall_lazy (drop (Suc k) cs)
         | None \<Rightarrow> findall_lazy cs)
      else findall_lazy cs)"

subsection \<open>extract\_json\_from\_response\<close>

definition trim_to_brace :: "string \<Rightarrow> string" where
  \<comment> \<open>Step 2: \<open>start_idx = cleaned.find('{')\<close>; if it is positive, the text before is dropped.\<close>
  "trim_to_brace s =
     (case find_char (CHR ''{'') s of
        Some i \<Rightarrow> if 0 < i then drop i s else s
      | None \<Rightarrow> s)"

definition clean :: "string \<Rightarrow> string" where
  \<comment> \<open>Steps 1 and 2: the text that the later steps work on.\<close>
  "clean content = trim_to_brace (strip_respond (strip_thinking content))"

definition matches :: "string \<Rightarrow> string list" where
  \<comment> \<open>Step 4: the matches of the four patterns, in the order the loops visit them.\<close>
  "matches cleaned =
     findall_fence (fence @ ''json'') cleaned @ findall_fence fence cleaned
       @ findall_greedy cleaned @ findall_lazy cleaned"

definition brace_slice :: "string \<Rightarrow> string option" where
  \<comment> \<open>Step 5: the text from the first opening brace to the last closing brace, when both
      exist and the closing one comes later.\<close>
  "brace_slice s =
     (case (find_char (CHR ''{'') s, rfind_char (CHR ''}'') s) of
        (Some i, Some j) \<Rightarrow> if i < j then Some (slice i (j + 1) s) else None
      | _ \<Rightarrow> None)"

definition parses :: "(string \<Rightarrow> 'j option) \<Rightarrow> string \<Rightarrow> bool" where
  \<comment> \<open>\<open>json.loads\<close> returns, rather than raising \<open>JSONDecodeError\<close>.\<close>
  "parses loads s \<longleftrightarrow> loads s \<noteq> None"

definition extract_json_from_response :: "(string \<Rightarrow> 'j option) \<Rightarrow> string \<Rightarrow> string" where
  "extract_json_from_response loads content =
     (let cleaned = clean content in
      if parses loads cleaned then cleaned
      else
        (case find (parses loads) (matches cleaned) of
           Some m \<Rightarrow> m
         | None \<Rightarrow>
            (case brace_slice cleaned of
               Some candidate \<Rightarrow> if parses loads candidate then candidate else cleaned
             | None \<Rightarrow> cleaned)))"


section \<open>The analysis clients\<close>

datatype reply = Reply (status_code: nat) (resp_text: string)

definition non_json_message :: "string \<Rightarrow> string" where
  "non_json_message json_text =
     ''Model returned non-JSON content. Attempted to parse: '' @ take 200 json_text @ ''...''
       @ (if 200 < length json_text
          then '' (truncated from '' @ str_nat (length json_text) @ '' chars)'' else [])"

definition message_content :: "json \<Rightarrow> error + json" where
  \<comment> \<open>\<open>(data.get("message") or {}).get("content", "")\<close>\<close>
  "message_content data =
     (case data of
        JObj kvs \<Rightarrow>
          (case dict_get kvs ''message'' of
             None \<Rightarrow> Inr (JStr [])
           | Some m \<Rightarrow>
              if \<not> truthy m then Inr (JStr [])
              else (case m of
                      JObj mkvs \<Rightarrow>
                        (case dict_get mkvs ''content'' of None \<Rightarrow> Inr (JStr []) | Some c \<Rightarrow> Inr c)
                    | _ \<Rightarrow> Inl AttributeError))
      | _ \<Rightarrow> Inl AttributeError)"

definition parse_content :: "(string \<Rightarrow> json option) \<Rightarrow> string \<Rightarrow> error + json" where
  \<comment> \<open>test\_model.py, lines 333 to 351: the extractor, the parse, the last-ditch slice.\<close>
  "parse_content loads content =
     (let json_text = extract_json_from_response loads content in
      case loads json_text of
        Some v \<Rightarrow> Inr v
      | None \<Rightarrow>
         (case (case brace_slice json_text of None \<Rightarrow> None | Some candidate \<Rightarrow> loads candidate) of
            Some v \<Rightarrow> Inr v
          | None \<Rightarrow> Inl (RuntimeError (non_json_message json_text))))"

definition call_ollama :: "(string \<Rightarrow> json option) \<Rightarrow> error + reply \<Rightarrow> error + json" where
  \<comment> \<open>test\_model.py: what \<open>call_ollama\<close> makes of the outcome of \<open>requests.post\<close>.\<close>
  "call_ollama loads outcome =
     (case outcome of
        Inl e \<Rightarrow> Inl e
      | Inr resp \<Rightarrow>
         if status_code resp \<noteq> 200
         then Inl (RuntimeError (''Ollama HTTP '' @ str_nat (status_code resp) @ '': ''
                                  @ take 400 (resp_text resp)))
         else
           (case loads (resp_text resp) of
              None \<Rightarrow> Inl JSONDecodeError
            | Some data \<Rightarrow>
               (case message_content data of
                  Inl e \<Rightarrow> Inl e
                | Inr (JStr content) \<Rightarrow> parse_content loads content
                | Inr _ \<Rightarrow> Inl TypeError)))"

definition ollama_call_ollama :: "(string \<Rightarrow> json option) \<Rightarrow> error + reply \<Rightarrow> error + json" where
  \<comment> \<open>test\_ollama.py: the content is parsed as it is.\<close>
  "ollama_call_ollama loads outcome =
     (case outcome of
        Inl e \<Rightarrow> Inl e
      | Inr resp \<Rightarrow>
         if status_code resp \<noteq> 200
         then Inl (RuntimeError (''Ollama HTTP '' @ str_nat (status_code resp) @ '': ''
                                  @ take 400 (resp_text resp)))
         else
           (case loads (resp_text resp) of
              None \<Rightarrow> Inl JSONDecodeError
            | Some data \<Rightarrow>
               (case message_content data of
                  Inl e \<Rightarrow> Inl e
                | Inr (JStr content) \<Rightarrow>
                   (case loads content of
                      Some v \<Rightarrow> Inr v
                    | None \<Rightarrow> Inl (RuntimeError (''Model returned non-JSON: '' @ take 400 content)))
                | Inr _ \<Rightarrow> Inl TypeError)))"

section \<open>The request (test\_model.py)\<close>








section \<open>The schema of an analysis result\<close>

text \<open>
  What \<open>analysis_schema\<close> asks of a value: an object with exactly the seven properties,
  the strings strings, the direction one of three words, the numbers between 0 and 1,
  and the scores an object with exactly the five numbers. A number is compared as the
  decimal it was written as.
\<close>

definition in_unit_interval :: "json \<Rightarrow> bool" where
  "in_unit_interval v =
     (case v of
        JInt i \<Rightarrow> 0 \<le> i \<and> i \<le> 1
      | JFloat m e \<Rightarrow> 0 \<le> m \<and> (if 0 \<le> e then m * 10 ^ nat e \<le> 1 else m \<le> 10 ^ nat (- e))
      | _ \<Rightarrow> False)"

definition is_string :: "json \<Rightarrow> bool" where
  "is_string v = (case v of JStr s \<Rightarrow> True | _ \<Rightarrow> False)"

definition field_ok :: "(json \<Rightarrow> bool) \<Rightarrow> (string \<times> json) list \<Rightarrow> string \<Rightarrow> bool" where
  "field_ok P kvs k = (case dict_get kvs k of Some v \<Rightarrow> P v | None \<Rightarrow> False)"

definition valid_scores :: "json \<Rightarrow> bool" where
  "valid_scores v =
     (case v of
        JObj kvs \<Rightarrow>
          set (map fst kvs) = {''impact_size'', ''time_proximity'', ''clarity'',
                               ''volatility_sensitivity'', ''duration''}
          \<and> list_all (field_ok in_unit_interval kvs)
               [''impact_size'', ''time_proximity'', ''clarity'', ''volatility_sensitivity'',
                ''duration'']
      | _ \<Rightarrow> False)"

definition valid_analysis_result :: "json \<Rightarrow> bool" where
  "valid_analysis_result v =
     (case v of
        JObj kvs \<Rightarrow>
          set (map fst kvs) = {''industry'', ''company'', ''symbol'', ''direction'', ''confidence'',
                               ''reason'', ''scores''}
          \<and> list_all (field_ok is_string kvs) [''industry'', ''company'', ''symbol'', ''reason'']
          \<and> field_ok (\<lambda>d. d \<in> {JStr ''buy'', JStr ''sell'', JStr ''hold''}) kvs ''direction''
          \<and> field_ok in_unit_interval kvs ''confidence''
          \<and> field_ok valid_scores kvs ''scores''
      | _ \<Rightarrow> False)"

section \<open>Model discovery\<close>

text \<open>
  The transport is outside the clients: a query ends in an exception of \<open>requests\<close> or
  in a reply, the listing command in an exception of \<open>subprocess\<close> or in its output.
  A model identifier is whatever value the listing holds under the name key, so a
  catalog is a list of decoded values; the identifiers the listing command gives are
  strings.
\<close>

definition raise_for_status :: "reply \<Rightarrow> error + reply" where
  "raise_for_status r =
     (if 400 \<le> status_code r \<and> status_code r < 600 then Inl (HTTPError (status_code r)) else Inr r)"

definition get_item :: "json \<Rightarrow> string \<Rightarrow> error + json" where
  \<comment> \<open>\<open>x.get(k)\<close>: only a dictionary has the method; a missing key gives \<open>None\<close>.\<close>
  "get_item x k =
     (case x of
        JObj kvs \<Rightarrow> Inr (case dict_get kvs k of None \<Rightarrow> JNull | Some v \<Rightarrow> v)
      | _ \<Rightarrow> Inl AttributeError)"

definition iterate :: "json \<Rightarrow> error + json list" where
  \<comment> \<open>\<open>for it in x\<close>: the items of a list, the characters of a string, the keys of a
      dictionary; nothing else can be iterated.\<close>
  "iterate x =
     (case x of
        JArr xs \<Rightarrow> Inr xs
      | JStr s \<Rightarrow> Inr (map (\<lambda>c. JStr [c]) s)
      | JObj kvs \<Rightarrow> Inr (map JStr (remdups (map fst kvs)))
      | _ \<Rightarrow> Inl TypeError)"

definition is_hashable :: "json \<Rightarrow> bool" where
  "is_hashable v = (case v of JArr xs \<Rightarrow> False | JObj kvs \<Rightarrow> False | _ \<Rightarrow> True)"

definition the_string :: "json \<Rightarrow> string" where
  "the_string v = (case v of JStr s \<Rightarrow> s | _ \<Rightarrow> [])"

definition sorted_set :: "(json list \<Rightarrow> json list) \<Rightarrow> json list \<Rightarrow> error + json list" where
  \<comment> \<open>\<open>sorted(set(names))\<close>. A list or a dictionary cannot enter a set; strings are
      ordered by code points; a string cannot be compared with a number. The order and
      the equality of numbers are floating-point arithmetic: \<open>sort_numbers\<close> stands for
      \<open>sorted(set(names))\<close> on names that are all numbers.\<close>
  "sorted_set sort_numbers names =
     (if \<not> list_all is_hashable names then Inl TypeError
      else if list_all is_string names then Inr (map JStr (sort (remdups (map the_string names))))
      else if list_ex is_string names then Inl TypeError
      else Inr (sort_numbers names))"

fun collect_names :: "(json \<Rightarrow> error + json) \<Rightarrow> json list \<Rightarrow> error + json list" where
  \<comment> \<open>The loop \<open>for it in models: name = ...; if name: names.append(name)\<close>.\<close>
  "collect_names name_of [] = Inr []"
| "collect_names name_of (it # its) =
     (case name_of it of
        Inl e \<Rightarrow> Inl e
      | Inr name \<Rightarrow>
         (case collect_names name_of its of
            Inl e \<Rightarrow> Inl e
          | Inr names \<Rightarrow> Inr (if truthy name then name # names else names)))"

definition or_else :: "json \<Rightarrow> json \<Rightarrow> json" where
  \<comment> \<open>\<open>x or y\<close>\<close>
  "or_else x y = (if truthy x then x else y)"

definition api_listing ::
  "(string \<Rightarrow> json option) \<Rightarrow> (json list \<Rightarrow> json list) \<Rightarrow> error + reply \<Rightarrow> error + json list" where
  \<comment> \<open>test\_model.py and test\_ollama.py: the body of the \<open>try\<close> of \<open>_list_models_via_api\<close>.\<close>
  "api_listing loads sort_numbers outcome =
     (case outcome of
        Inl e \<Rightarrow> Inl e
      | Inr r \<Rightarrow>
         (case raise_for_status r of
            Inl e \<Rightarrow> Inl e
          | Inr r \<Rightarrow>
             (case loads (resp_text r) of
                None \<Rightarrow> Inl JSONDecodeError
              | Some d \<Rightarrow>
                 (case (case or_else d (JObj []) of
                          JObj kvs \<Rightarrow> Inr (case dict_get kvs ''models'' of None \<Rightarrow> JArr [] | Some v \<Rightarrow> v)
                        | _ \<Rightarrow> Inl AttributeError) of
                    Inl e \<Rightarrow> Inl e
                  | Inr models \<Rightarrow>
                     (case iterate models of
                        Inl e \<Rightarrow> Inl e
                      | Inr its \<Rightarrow>
                         (case collect_names (\<lambda>it. get_item it ''name'') its of
                            Inl e \<Rightarrow> Inl e
                          | Inr names \<Rightarrow> sorted_set sort_numbers names))))))"

definition list_models_via_api ::
  "(string \<Rightarrow> json option) \<Rightarrow> (json list \<Rightarrow> json list) \<Rightarrow> error + reply \<Rightarrow> json list" where
  \<comment> \<open>\<open>except Exception: return []\<close>\<close>
  "list_models_via_api loads sort_numbers outcome =
     (case api_listing loads sort_numbers outcome of Inl e \<Rightarrow> [] | Inr names \<Rightarrow> names)"

definition gpt_name_of :: "json \<Rightarrow> error + json" where
  \<comment> \<open>\<open>it.get("id") or it.get("name")\<close>\<close>
  "gpt_name_of it =
     (case get_item it ''id'' of
        Inl e \<Rightarrow> Inl e
      | Inr i \<Rightarrow> if truthy i then Inr i else get_item it ''name'')"

definition gpt_api_listing ::
  "(string \<Rightarrow> json option) \<Rightarrow> (json list \<Rightarrow> json list) \<Rightarrow> error + reply \<Rightarrow> error + json list" where
  \<comment> \<open>test\_gpt.py: the body of the \<open>try\<close> of \<open>_list_models_via_api\<close>.\<close>
  "gpt_api_listing loads sort_numbers outcome =
     (case outcome of
        Inl e \<Rightarrow> Inl e
      | Inr r \<Rightarrow>
         (case raise_for_status r of
            Inl e \<Rightarrow> Inl e
          | Inr r \<Rightarrow>
             (case loads (resp_text r) of
                None \<Rightarrow> Inl JSONDecodeError
              | Some d \<Rightarrow>
                 (case get_item d ''data'' of
                    Inl e \<Rightarrow> Inl e
                  | Inr a \<Rightarrow>
                     (case (if truthy a then Inr a
                            else (case get_item d ''models'' of
                                    Inl e \<Rightarrow> Inl e
                                  | Inr b \<Rightarrow> Inr (or_else b (JArr [])))) of
                        Inl e \<Rightarrow> Inl e
                      | Inr items \<Rightarrow>
                         (case iterate items of
                            Inl e \<Rightarrow> Inl e
                          | Inr its \<Rightarrow>
                             (case collect_names gpt_name_of its of
                                Inl e \<Rightarrow> Inl e
                              | Inr names \<Rightarrow> sorted_set sort_numbers names)))))))"

definition gpt_list_models_via_api ::
  "(string \<Rightarrow> json option) \<Rightarrow> (json list \<Rightarrow> json list) \<Rightarrow> error + reply \<Rightarrow> json list" where
  "gpt_list_models_via_api loads sort_numbers outcome =
     (case gpt_api_listing loads sort_numbers outcome of Inl e \<Rightarrow> [] | Inr names \<Rightarrow> names)"



subsection \<open>The listing command\<close>

definition is_linebreak :: "char \<Rightarrow> bool" where
  \<comment> \<open>The line boundaries of \<open>str.splitlines\<close>: LF, VT, FF, CR, FS, GS, RS, NEL.\<close>
  "is_linebreak c \<longleftrightarrow> c \<in> set [CHR 0x0A, CHR 0x0B, CHR 0x0C, CHR 0x0D, CHR 0x1C, CHR 0x1D, CHR 0x1E, CHR 0x85]"

fun splitlines_from :: "string \<Rightarrow> string \<Rightarrow> string list" where
  \<comment> \<open>The lines of a text, the first one begun with the (reversed) characters given.
      CR LF is one boundary; a boundary at the very end opens no line.\<close>
  "splitlines_from acc [] = (if acc = [] then [] else [rev acc])"
| "splitlines_from acc (c # cs) =
     (if is_linebreak c
      then rev acc # splitlines_from []
             (if c = CHR 0x0D \<and> cs \<noteq> [] \<and> hd cs = CHR 0x0A then tl cs else cs)
      else splitlines_from (c # acc) cs)"

definition splitlines :: "string \<Rightarrow> string list" where
  "splitlines s = splitlines_from [] s"

fun split_from :: "string \<Rightarrow> string \<Rightarrow> string list" where
  \<comment> \<open>\<open>str.split()\<close>: the maximal runs of characters that are not white space.\<close>
  "split_from acc [] = (if acc = [] then [] else [rev acc])"
| "split_from acc (c # cs) =
     (if is_space c then (if acc = [] then split_from [] cs else rev acc # split_from [] cs)
      else split_from (c # acc) cs)"

definition split :: "string \<Rightarrow> string list" where
  "split s = split_from [] s"

fun cli_names :: "(string \<Rightarrow> bool) \<Rightarrow> string list \<Rightarrow> string list" where
  \<comment> \<open>The loop over the lines: \<open>tok = line.strip().split()\<close>, and \<open>tok[0]\<close> is kept when
      \<open>tok\<close> is not empty and \<open>tok[0]\<close> looks like an identifier.\<close>
  "cli_names looks_like_id [] = []"
| "cli_names looks_like_id (line # lines) =
     (case split (strip line) of
        [] \<Rightarrow> cli_names looks_like_id lines
      | t # ts \<Rightarrow>
         if looks_like_id t then t # cli_names looks_like_id lines
         else cli_names looks_like_id lines)"

definition list_models_via_cli :: "error + string \<Rightarrow> string list" where
  \<comment> \<open>test\_model.py and test\_ollama.py, \<open>ollama list\<close>: \<open>":" in tok[0]\<close>\<close>
  "list_models_via_cli outcome =
     (case outcome of
        Inl e \<Rightarrow> []
      | Inr out \<Rightarrow> sort (remdups (cli_names (\<lambda>t. CHR '':'' \<in> set t) (splitlines out))))"

definition gpt_list_models_via_cli :: "error + string \<Rightarrow> string list" where
  \<comment> \<open>test\_gpt.py, \<open>docker model list\<close>: \<open>"/" in tok[0] or ":" in tok[0]\<close>\<close>
  "gpt_list_models_via_cli outcome =
     (case outcome of
        Inl e \<Rightarrow> []
      | Inr out \<Rightarrow>
         sort (remdups (cli_names (\<lambda>t. CHR ''/'' \<in> set t \<or> CHR '':'' \<in> set t) (splitlines out))))"

subsection \<open>The two tiers\<close>

record backend =
  api :: "error + reply"
  cli :: "error + string"

datatype effect = ApiQuery | CliList

definition get_installed_models ::
  "(string \<Rightarrow> json option) \<Rightarrow> (json list \<Rightarrow> json list) \<Rightarrow> backend \<Rightarrow> json list \<times> effect list" where
  \<comment> \<open>\<open>_list_models_via_api(api_base) or _list_models_via_cli()\<close>, with the queries made.\<close>
  "get_installed_models loads sort_numbers b =
     (let models = list_models_via_api loads sort_numbers (api b) in
      if models \<noteq> [] then (models, [ApiQuery])
      else (map JStr (list_models_via_cli (cli b)), [ApiQuery, CliList]))"

definition gpt_get_models ::
  "(string \<Rightarrow> json option) \<Rightarrow> (json list \<Rightarrow> json list) \<Rightarrow> backend \<Rightarrow> json list \<times> effect list" where
  \<comment> \<open>test\_gpt.py: \<open>models = _list_models_via_api(api_base)\<close>, and
      \<open>if not models: models = _list_models_via_cli()\<close>.\<close>
  "gpt_get_models loads sort_numbers b =
     (let models = gpt_list_models_via_api loads sort_numbers (api b) in
      if models \<noteq> [] then (models, [ApiQuery])
      else (map JStr (gpt_list_models_via_cli (cli b)), [ApiQuery, CliList]))"

section \<open>The model chooser\<close>

text \<open>
  The user's lines are a list; \<open>input()\<close> takes the next one and raises \<open>EOFError\<close> when
  none is left. \<open>int(sel)\<close> reads ASCII digits only, so it raises \<open>ValueError\<close> on a
  string of digit characters that holds a superscript digit.
\<close>

definition int_of_str :: "string \<Rightarrow> error + nat" where
  \<comment> \<open>\<open>int(sel)\<close> for a \<open>sel\<close> with \<open>sel.isdigit()\<close>\<close>
  "int_of_str s = (if list_all is_ascii_digit s then Inr (nat (int_of_digits s)) else Inl ValueError)"

definition first_item :: "'a list \<Rightarrow> error + 'a" where
  \<comment> \<open>\<open>xs[0]\<close>\<close>
  "first_item xs = (case xs of [] \<Rightarrow> Inl IndexError | x # _ \<Rightarrow> Inr x)"

definition candidates :: "'a list \<Rightarrow> 'a list \<Rightarrow> 'a list" where
  \<comment> \<open>test\_ollama.py and test\_gpt.py: \<open>pref = [m for m in preferred if m in models]\<close>,
      \<open>rest = [m for m in models if m not in pref]\<close>, \<open>candidates = pref + rest\<close>.\<close>
  "candidates preferred models =
     (let pref = filter (\<lambda>m. m \<in> set models) preferred;
          rest = filter (\<lambda>m. m \<notin> set pref) models
      in pref @ rest)"

fun select_loop :: "'a list \<Rightarrow> string list \<Rightarrow> error + 'a" where
  \<comment> \<open>test\_ollama.py and test\_gpt.py: the \<open>while True\<close> of the chooser.\<close>
  "select_loop cands [] = Inl EOFError"
| "select_loop cands (line # lines) =
     (let sel = strip line in
      if sel = [] then first_item cands
      else if isdigit sel then
        (case int_of_str sel of
           Inl e \<Rightarrow> Inl e
         | Inr idx \<Rightarrow>
            if 1 \<le> idx \<and> idx \<le> length cands then Inr (cands ! (idx - 1))
            else select_loop cands lines)
      else select_loop cands lines)"

definition choose_among :: "'a list \<Rightarrow> 'a list \<Rightarrow> string list \<Rightarrow> error + 'a" where
  \<comment> \<open>test\_ollama.py and test\_gpt.py: \<open>choose_model_interactive\<close> once the catalog
      \<open>models\<close> is there.\<close>
  "choose_among preferred models lines =
     (if models = [] then Inl (SystemExit 1)
      else select_loop (candidates preferred models) lines)"

definition ollama_choose_model_interactive ::
  "(string \<Rightarrow> json option) \<Rightarrow> (json list \<Rightarrow> json list) \<Rightarrow> backend \<Rightarrow> string list \<Rightarrow> string list
     \<Rightarrow> error + json" where
  "ollama_choose_model_interactive loads sort_numbers b preferred lines =
     choose_among (map JStr preferred) (fst (get_installed_models loads sort_numbers b)) lines"

definition gpt_choose_model_interactive ::
  "(string \<Rightarrow> json option) \<Rightarrow> (json list \<Rightarrow> json list) \<Rightarrow> backend \<Rightarrow> string list \<Rightarrow> string list
     \<Rightarrow> error + json" where
  "gpt_choose_model_interactive loads sort_numbers b preferred lines =
     choose_among (map JStr preferred) (fst (gpt_get_models loads sort_numbers b)) lines"



section \<open>Properties\<close>

subsection \<open>The response extractor\<close>

lemma ci_startswith_lower: "ci_startswith s p \<longleftrightarrow> startswith (lower s) p"
  by (induction s p rule: ci_startswith.induct)
     (auto simp: ci_startswith.simps startswith_def lower_def)

lemma ci_startswith_length: "ci_startswith s p \<Longrightarrow> length p \<le> length s"
  by (induction s p rule: ci_startswith.induct)
     (auto simp: ci_startswith.simps split: if_splits)

lemma lower_Cons: "lower (c # cs) = lower_char c # lower cs"
  by (simp add: lower_def)

lemma strip_thinking_id:
  "\<not> contains (lower s) ''thinking...'' \<Longrightarrow> \<not> contains (lower s) ''done thinking.'' \<Longrightarrow>
   strip_thinking s = s"
  by (induction s) (auto simp: ci_startswith_lower lower_Cons simp del: lower_def)

lemma strip_respond_id: "\<not> contains (lower s) ''we need to respond'' \<Longrightarrow> strip_respond s = s"
  by (induction s) (auto simp: ci_startswith_lower lower_Cons)

lemma find_char_None: "find_char c s = None \<longleftrightarrow> c \<notin> set s"
  by (induction s) auto

lemma find_char_append: "c \<notin> set n \<Longrightarrow> find_char c (n @ c # r) = Some (length n)"
  by (induction n) auto

lemma rfind_char_None: "rfind_char c s = None \<longleftrightarrow> c \<notin> set s"
  using find_char_None [of c "rev s"] by (cases "find_char c (rev s)") (simp_all add: rfind_char_def)

lemma trim_to_brace_start: "startswith s ''{'' \<Longrightarrow> trim_to_brace s = s"
  by (cases s) (auto simp: trim_to_brace_def startswith_def)


lemma trim_to_brace_noise: "CHR ''{'' \<notin> set n \<Longrightarrow> trim_to_brace (n @ CHR ''{'' # r) = CHR ''{'' # r"
  by (cases n) (auto simp: trim_to_brace_def find_char_append)








lemma extract_clean: "parses loads (clean content) \<Longrightarrow> extract_json_from_response loads content = clean content"
  by (simp add: extract_json_from_response_def)










lemma clean_unmarked:
  assumes "startswith content ''{''"
    and "\<not> contains (lower content) ''thinking...''"
    and "\<not> contains (lower content) ''done thinking.''"
    and "\<not> contains (lower content) ''we need to respond''"
  shows "clean content = content"
  using assms by (simp add: clean_def strip_thinking_id strip_respond_id trim_to_brace_start)


text \<open>
  Claim C3, as amended. A raw text that parses, begins with the opening brace and holds
  none of the markers \<open>thinking...\<close>, \<open>done thinking.\<close> and \<open>we need to respond\<close> (in any
  case of the letters) is returned unchanged.
\<close>

theorem extractor_identity_on_unmarked_json:
  assumes "parses loads content" and "startswith content ''{''"
    and "\<not> contains (lower content) ''thinking...''"
    and "\<not> contains (lower content) ''done thinking.''"
    and "\<not> contains (lower content) ''we need to respond''"
  shows "extract_json_from_response loads content = content"
  using assms by (simp add: clean_unmarked extract_clean)





subsection \<open>The format of the request\<close>










subsection \<open>The chooser\<close>

lemma candidates_eq:
  "candidates preferred models =
     filter (\<lambda>m. m \<in> set models) preferred @ filter (\<lambda>m. m \<notin> set preferred) models"
proof -
  have "filter (\<lambda>m. m \<notin> set (filter (\<lambda>m. m \<in> set models) preferred)) models =
        filter (\<lambda>m. m \<notin> set preferred) models"
    by (rule filter_cong) auto
  then show ?thesis by (simp add: candidates_def Let_def)
qed

lemma set_candidates: "set (candidates preferred models) = set models"
  by (auto simp: candidates_eq)

lemma candidates_not_empty: "models \<noteq> [] \<Longrightarrow> candidates preferred models \<noteq> []"
  by (metis set_candidates set_empty)

lemma first_item_hd: "xs \<noteq> [] \<Longrightarrow> first_item xs = Inr (hd xs)"
  by (cases xs) (simp_all add: first_item_def)







lemma choose_among_blank:
  "models \<noteq> [] \<Longrightarrow> strip line = [] \<Longrightarrow>
   choose_among preferred models (line # lines) = Inr (hd (candidates preferred models))"
  by (simp add: choose_among_def first_item_hd candidates_not_empty)








text \<open>
  Claim C6. The catalog entries that the preferred list names come first, in the order
  of the preferred list, and the other catalog entries follow in the order they have;
  a blank line selects the first candidate. With the preferred list \<open>b, a\<close> and the
  catalog \<open>a, b, c\<close> the candidates are \<open>b, a, c\<close> and a blank line gives \<open>b\<close>.
\<close>

theorem preferred_models_first:
  assumes "models \<noteq> []" and "strip line = []"
  shows "candidates preferred models =
           filter (\<lambda>m. m \<in> set models) preferred @ filter (\<lambda>m. m \<notin> set preferred) models
         \<and> candidates preferred models \<noteq> []
         \<and> choose_among preferred models (line # lines) = Inr (hd (candidates preferred models))
         \<and> candidates [''b'', ''a''] [''a'', ''b'', ''c''] = [''b'', ''a'', ''c'']
         \<and> choose_among [''b'', ''a''] [''a'', ''b'', ''c''] [[]] = Inr ''b''"
proof -
  have ex: "candidates [''b'', ''a''] [''a'', ''b'', ''c''] = [''b'', ''a'', ''c'']"
    by (simp add: candidates_eq)
  have "strip [] = []" by (simp add: strip_def)
  then have "choose_among [''b'', ''a''] [''a'', ''b'', ''c''] [[]]
             = Inr (hd (candidates [''b'', ''a''] [''a'', ''b'', ''c'']))"
    by (intro choose_among_blank) simp_all
  then have blank: "choose_among [''b'', ''a''] [''a'', ''b'', ''c''] [[]] = Inr ''b''"
    by (simp add: ex)
  from assms ex blank show ?thesis
    by (simp add: candidates_eq [symmetric] candidates_not_empty choose_among_blank)
qed

theorem preferred_models_first_witness:
  "[''x:1'', ''y:2'', ''z:3''] \<noteq> [] \<and> strip ''  '' = []
   \<and> candidates [''z:3'', ''q:0'', ''x:1''] [''x:1'', ''y:2'', ''z:3''] = [''z:3'', ''x:1'', ''y:2'']
   \<and> choose_among [''z:3'', ''q:0'', ''x:1''] [''x:1'', ''y:2'', ''z:3''] [''  '', ''2''] = Inr ''z:3''"
proof -
  have h1: "[''x:1'', ''y:2'', ''z:3''] \<noteq> []" by simp
  have h2: "strip ''  '' = []" by code_simp
  note t = preferred_models_first [OF h1 h2, of "[''z:3'', ''q:0'', ''x:1'']" "[''2'']"]
  from t have c: "candidates [''z:3'', ''q:0'', ''x:1''] [''x:1'', ''y:2'', ''z:3'']
                  = [''z:3'', ''x:1'', ''y:2'']"
    by simp
  from t have "choose_among [''z:3'', ''q:0'', ''x:1''] [''x:1'', ''y:2'', ''z:3''] [''  '', ''2'']
               = Inr (hd (candidates [''z:3'', ''q:0'', ''x:1''] [''x:1'', ''y:2'', ''z:3'']))"
    by blast
  with c h1 h2 show ?thesis by simp
qed









subsection \<open>The listing command\<close>

lemma cli_names_set:
  "set (cli_names P lines) = {t. \<exists>l \<in> set lines. \<exists>ts. split (strip l) = t # ts \<and> P t}"
proof (induction lines)
  case Nil
  then show ?case by simp
next
  case (Cons l lines)
  then show ?case by (cases "split (strip l)") auto
qed

text \<open>
  Claim C9, as amended. A listing command that fails gives the empty catalog. Otherwise
  the catalog is sorted and free of duplicates, and its entries are the first
  white-space-delimited tokens of the lines of the output that look like an identifier:
  in test\_gpt.py a token that contains \<open>/\<close> or \<open>:\<close>, in test\_model.py and test\_ollama.py
  a token that contains \<open>:\<close>.
\<close>

theorem cli_listing_keeps_identifiers:
  "gpt_list_models_via_cli (Inl e) = [] \<and> list_models_via_cli (Inl e) = []
   \<and> sorted (gpt_list_models_via_cli (Inr out)) \<and> distinct (gpt_list_models_via_cli (Inr out))
   \<and> set (gpt_list_models_via_cli (Inr out)) =
        {t. \<exists>l \<in> set (splitlines out). \<exists>ts. split (strip l) = t # ts
              \<and> (CHR ''/'' \<in> set t \<or> CHR '':'' \<in> set t)}
   \<and> sorted (list_models_via_cli (Inr out)) \<and> distinct (list_models_via_cli (Inr out))
   \<and> set (list_models_via_cli (Inr out)) =
        {t. \<exists>l \<in> set (splitlines out). \<exists>ts. split (strip l) = t # ts \<and> CHR '':'' \<in> set t}"
  by (simp add: gpt_list_models_via_cli_def list_models_via_cli_def cli_names_set)

theorem cli_listing_keeps_identifiers_witness:
  "gpt_list_models_via_cli (Inr (''MODEL  SIZE'' @ [CHR 0x0A] @ ''ai/qwen3 1GB'' @ [CHR 0x0A]
       @ ''  ai/gpt-oss:20b  2GB'' @ [CHR 0x0A] @ ''ai/qwen3 1GB''))
     = [''ai/gpt-oss:20b'', ''ai/qwen3'']
   \<and> list_models_via_cli (Inr (''MODEL  SIZE'' @ [CHR 0x0A] @ ''ai/qwen3 1GB'' @ [CHR 0x0A]
       @ ''  ai/gpt-oss:20b  2GB'' @ [CHR 0x0A] @ ''ai/qwen3 1GB''))
     = [''ai/gpt-oss:20b'']
   \<and> sorted [''ai/gpt-oss:20b'', ''ai/qwen3''] \<and> distinct [''ai/gpt-oss:20b'', ''ai/qwen3'']"
proof -
  let ?out = "''MODEL  SIZE'' @ [CHR 0x0A] @ ''ai/qwen3 1GB'' @ [CHR 0x0A]
       @ ''  ai/gpt-oss:20b  2GB'' @ [CHR 0x0A] @ ''ai/qwen3 1GB''"
  have g: "gpt_list_models_via_cli (Inr ?out) = [''ai/gpt-oss:20b'', ''ai/qwen3'']"
    by code_simp
  have l: "list_models_via_cli (Inr ?out) = [''ai/gpt-oss:20b'']"
    by code_simp
  from cli_listing_keeps_identifiers [of Timeout ?out]
  have "sorted (gpt_list_models_via_cli (Inr ?out)) \<and> distinct (gpt_list_models_via_cli (Inr ?out))"
    by blast
  with g l show ?thesis by simp
qed

theorem ollama_cli_listing_drops_slash:
  "split (strip ''ai/gpt-oss   1GB'') = [''ai/gpt-oss'', ''1GB'']
   \<and> CHR ''/'' \<in> set ''ai/gpt-oss''
   \<and> list_models_via_cli (Inr ''ai/gpt-oss   1GB'') = []"
  by code_simp


subsection \<open>Discovery\<close>












end
